theory Spec2Isabelle
  imports Main "HOL-Library.Word"
begin

section \<open>Bytes and typed-array reads\<close>

text \<open>
  A \<open>Uint8Array\<close> is a list of 8-bit words. Reading \<open>buffer[i]\<close> never throws: past
  the end of the array the read yields \<open>undefined\<close>, which is \<open>None\<close> here, and
  \<open>undefined === 0x89\<close> is false.
\<close>

type_synonym byte = "8 word"

definition at :: "byte list \<Rightarrow> nat \<Rightarrow> byte option" where
  "at buffer i = (if i < length buffer then Some (buffer ! i) else None)"

section \<open>utils.ts: detectMimeType\<close>

text \<open>
  The four tests of the source in its order. The test for the RIFF header has the test
  for \<open>WEBP\<close> nested in it and no \<open>else\<close>: a RIFF header that is not followed by
  \<open>WEBP\<close> falls through to the GIF test.
\<close>

definition detectMimeType :: "byte list \<Rightarrow> string" where
  "detectMimeType buffer =
     (if at buffer 0 = Some 0x89 \<and> at buffer 1 = Some 0x50 \<and> at buffer 2 = Some 0x4e
         \<and> at buffer 3 = Some 0x47
      then ''image/png''
      else if at buffer 0 = Some 0xff \<and> at buffer 1 = Some 0xd8 \<and> at buffer 2 = Some 0xff
      then ''image/jpeg''
      else if (at buffer 0 = Some 0x52 \<and> at buffer 1 = Some 0x49 \<and> at buffer 2 = Some 0x46
                 \<and> at buffer 3 = Some 0x46)
            \<and> (at buffer 8 = Some 0x57 \<and> at buffer 9 = Some 0x45 \<and> at buffer 10 = Some 0x42
                 \<and> at buffer 11 = Some 0x50)
      then ''image/webp''
      else if at buffer 0 = Some 0x47 \<and> at buffer 1 = Some 0x49 \<and> at buffer 2 = Some 0x46
      then ''image/gif''
      else ''application/octet-stream'')"

text \<open>
  The signature table in the words of the specification: a signature is a run of bytes
  at an offset, and the first matching entry, in the order PNG, JPEG, WEBP, GIF, wins.
\<close>

definition has_bytes :: "byte list \<Rightarrow> nat \<Rightarrow> byte list \<Rightarrow> bool" where
  "has_bytes buffer offset sig = (take (length sig) (drop offset buffer) = sig)"

definition signature_type :: "byte list \<Rightarrow> string" where
  "signature_type prefix =
     (if has_bytes prefix 0 [0x89, 0x50, 0x4E, 0x47] then ''image/png''
      else if has_bytes prefix 0 [0xFF, 0xD8, 0xFF] then ''image/jpeg''
      else if has_bytes prefix 0 [0x52, 0x49, 0x46, 0x46]
            \<and> has_bytes prefix 8 [0x57, 0x45, 0x42, 0x50] then ''image/webp''
      else if has_bytes prefix 0 [0x47, 0x49, 0x46] then ''image/gif''
      else ''application/octet-stream'')"

section \<open>JavaScript values the code relies on\<close>

text \<open>
  Strings are modelled as \<open>string\<close>; \<open>toLowerCase\<close> acts on the ASCII letters, which
  is all the code's tables contain.
\<close>

definition toLowerCase :: "string \<Rightarrow> string" where
  "toLowerCase s =
     map (\<lambda>c. case map_of (zip ''ABCDEFGHIJKLMNOPQRSTUVWXYZ'' ''abcdefghijklmnopqrstuvwxyz'') c of
                Some l \<Rightarrow> l
              | None \<Rightarrow> c) s"

text \<open>
  The API key is the one string of the caller's that the host checks character by
  character, so it is kept as JavaScript has it: a list of 16-bit code units.
  \<open>utf16_of\<close> writes a text of 8-bit characters that way.
\<close>

type_synonym utf16 = "16 word list"

definition utf16_of :: "string \<Rightarrow> utf16" where
  "utf16_of s = map (\<lambda>c. of_nat (of_char c)) s"

text \<open>
  A number as \<open>parseInt\<close> returns it: \<open>NaN\<close>, an infinity, the negative zero, or an
  integer.
\<close>

datatype number = NaN | PlusInfinity | MinusInfinity | MinusZero | Integer int

text \<open>
  The tables of the source (\<open>ERROR_MAP\<close>, \<open>mimeFromExt\<close>, \<open>map\<close> in \<open>getExtension\<close>)
  are object literals, and an object parsed from JSON is one too. Reading \<open>table[key]\<close>
  looks at the object's own properties first and then at \<open>Object.prototype\<close>, whose
  members are built-in values; only a key found in neither place reads as \<open>undefined\<close>.
\<close>

datatype builtin = ObjectConstructor | ObjectPrototype | NativeFunction string

datatype 'a js = Undefined | Value 'a | Builtin builtin

text \<open>
  Two conversions are the host's own: the text of a built-in object, and the text of a
  number too large to be printed digit by digit.
\<close>

record natives =
  builtin_text :: "builtin \<Rightarrow> string"
  number_text :: "int \<Rightarrow> string"

definition object_prototype :: "string \<Rightarrow> builtin option" where
  "object_prototype key =
     (if key = ''constructor'' then Some ObjectConstructor
      else if key = ''__proto__'' then Some ObjectPrototype
      else if key \<in> set
        [''hasOwnProperty'', ''isPrototypeOf'', ''propertyIsEnumerable'', ''toLocaleString'',
         ''toString'', ''valueOf'', ''__defineGetter__'', ''__defineSetter__'',
         ''__lookupGetter__'', ''__lookupSetter__'']
      then Some (NativeFunction key)
      else None)"

definition property :: "(string \<times> 'a) list \<Rightarrow> string \<Rightarrow> 'a js" where
  "property obj key =
     (case map_of obj key of
        Some v \<Rightarrow> Value v
      | None \<Rightarrow> (case object_prototype key of Some b \<Rightarrow> Builtin b | None \<Rightarrow> Undefined))"

text \<open>
  \<open>a || b\<close> on a table entry that is a string when present: the empty string and
  \<open>undefined\<close> are falsy, every built-in object is truthy.
\<close>

definition or_else :: "string js \<Rightarrow> string \<Rightarrow> string js" where
  "or_else a b =
     (case a of
        Undefined \<Rightarrow> Value b
      | Value s \<Rightarrow> (if s = [] then Value b else Value s)
      | Builtin f \<Rightarrow> Builtin f)"

section \<open>types.ts\<close>

text \<open>
  A \<open>Blob\<close> has bytes and a content type; a \<open>File\<close> is a \<open>Blob\<close> that also carries a
  name. \<open>ImageInput\<close> is \<open>File | Blob | ArrayBuffer | Buffer | Uint8Array | string\<close>;
  \<open>OtherInput t\<close> stands for a run-time value outside that union whose \<open>typeof\<close> is
  \<open>t\<close>.
\<close>

record blob =
  blob_bytes :: "byte list"
  blob_type :: string
  blob_name :: "string option"

datatype image_input =
    BlobInput blob
  | ArrayBufferInput "byte list"
  | Uint8ArrayInput "byte list"
  | BufferInput "byte list"
  | StringInput string
  | OtherInput string

datatype ImageFormat = Png | Jpg | Webp

datatype Channels = Rgba | Rgb

datatype ImageSize = Full | Preview | Small | Medium | Large

fun ImageFormat_string :: "ImageFormat \<Rightarrow> string" where
  "ImageFormat_string Png = ''png''"
| "ImageFormat_string Jpg = ''jpg''"
| "ImageFormat_string Webp = ''webp''"

fun Channels_string :: "Channels \<Rightarrow> string" where
  "Channels_string Rgba = ''rgba''"
| "Channels_string Rgb = ''rgb''"

fun ImageSize_string :: "ImageSize \<Rightarrow> string" where
  "ImageSize_string Full = ''full''"
| "ImageSize_string Preview = ''preview''"
| "ImageSize_string Small = ''small''"
| "ImageSize_string Medium = ''medium''"
| "ImageSize_string Large = ''large''"

record RemoveBackgroundOptions =
  format :: "ImageFormat option"
  channels :: "Channels option"
  bgColor :: "string option"
  size' :: "ImageSize option"
  crop :: "bool option"

record ProcessingMetadata =
  requestId :: string
  processingTimeMs :: number
  width :: number
  height :: number
  contentType :: string

record RemoveBackgroundResult =
  data :: "byte list"
  metadata :: ProcessingMetadata

text \<open>
  A parsed JSON document. \<open>JObj\<close> lists the own properties of the parsed object, each
  key once. Numbers are the integers; the code never computes with them.
\<close>

datatype json =
    JNull
  | JBool bool
  | JNum int
  | JStr string
  | JArr "json list"
  | JObj "(string \<times> json) list"

record ApiErrorResponse =
  code :: string
  message :: string
  details :: "string option"
  request_id :: string

text \<open>The JSON document that carries a payload of the declared shape.\<close>

definition payload_json :: "ApiErrorResponse \<Rightarrow> json" where
  "payload_json p =
     JObj ([(''code'', JStr (code p)), (''message'', JStr (message p))]
           @ (case details p of Some d \<Rightarrow> [(''details'', JStr d)] | None \<Rightarrow> [])
           @ [(''request_id'', JStr (request_id p))])"

section \<open>The host\<close>

text \<open>
  What the code takes from its runtime: errors raised by host functions, promises, the
  HTTP response object, and the host itself.
\<close>

datatype host_error = HostError (instanceofError: bool) (error_name: string) (error_message: string)

text \<open>
  A promise stays pending for ever, or settles after so many milliseconds with a value.
  Promises of the host settle with \<open>Inl\<close> a rejection or \<open>Inr\<close> a result.
\<close>

datatype 'a promise = Pending | Settles nat 'a

fun delay_by :: "nat \<Rightarrow> 'a promise \<Rightarrow> 'a promise" where
  "delay_by t Pending = Pending"
| "delay_by t (Settles u x) = Settles (t + u) x"

text \<open>
  A response is there once its status line and headers have arrived. Its body is read
  afterwards: \<open>json_body\<close> is the promise \<open>response.json()\<close> returns and \<open>arrayBuffer\<close>
  the one \<open>response.arrayBuffer()\<close> returns, timed from the arrival of the response.
  The status is an unsigned 16-bit number.
\<close>

record response =
  status :: int
  statusText :: string
  headers_get :: "string \<Rightarrow> string option"
  json_body :: "(host_error + json) promise"
  arrayBuffer :: "(host_error + byte list) promise"

datatype form_value = FileEntry blob string | TextEntry string

type_synonym FormData = "(string \<times> form_value) list"

record request =
  url :: string
  http_method :: string
  headers :: "(string \<times> string) list"
  body :: "FormData option"
  abort_after :: int

text \<open>
  The host: \<open>isNode\<close>; whether a global \<open>File\<close> class exists; \<open>fs.readFile\<close>;
  \<open>path.extname\<close>; its conversions to text; \<open>parseInt(s, 10)\<close>; how long a timer set
  with \<open>setTimeout(f, delay)\<close> really waits; whether the timer or the network is served
  first when both are due in the same millisecond; and the network, which says how the
  \<open>fetch\<close> of a request settles when nothing aborts it, timed from the sending of the
  request.
\<close>

record host =
  isNode :: bool
  hasFile :: bool
  readFile :: "string \<Rightarrow> host_error + byte list"
  extname :: "string \<Rightarrow> string"
  builtins :: natives
  parseInt10 :: "string \<Rightarrow> number"
  setTimeout_delay :: "int \<Rightarrow> nat"
  timer_wins_tie :: bool
  native_fetch :: "request \<Rightarrow> (host_error + response) promise"

section \<open>Number and string conversions of the language\<close>

text \<open>
  \<open>decimal\<close> is the text of an integer in a template literal or as a property key,
  as JavaScript prints an integer of magnitude below \<open>10^21\<close>: all its digits. The
  status of a response is such an integer.
\<close>

definition digit_char :: "nat \<Rightarrow> char" where
  "digit_char d = ''0123456789'' ! d"

fun digits :: "nat \<Rightarrow> string" where
  "digits n = (if n < 10 then [digit_char n] else digits (n div 10) @ [digit_char (n mod 10)])"

declare digits.simps [simp del]

definition decimal :: "int \<Rightarrow> string" where
  "decimal i = (if i < 0 then CHR ''-'' # digits (nat (- i)) else digits (nat i))"

text \<open>
  \<open>String(v)\<close> of a parsed JSON value. A number below \<open>10^21\<close> in magnitude prints all
  its digits, a larger one as the host prints it. An array joins its elements with
  commas, an element \<open>null\<close> giving the empty text; an object converts through
  \<open>Object.prototype.toString\<close> unless an own property \<open>toString\<close> hides it, in which
  case the conversion raises a \<open>TypeError\<close> (\<open>None\<close>), nothing parsed from JSON being
  callable.
\<close>

fun join :: "string option list \<Rightarrow> string option" where
  "join [] = Some []"
| "join [x] = x"
| "join (x # y # ys) =
     (case x of
        None \<Rightarrow> None
      | Some a \<Rightarrow> (case join (y # ys) of None \<Rightarrow> None | Some b \<Rightarrow> Some (a @ '','' @ b)))"

fun json_ToString :: "(int \<Rightarrow> string) \<Rightarrow> json \<Rightarrow> string option" where
  "json_ToString large JNull = Some ''null''"
| "json_ToString large (JBool b) = Some (if b then ''true'' else ''false'')"
| "json_ToString large (JNum n) = Some (if \<bar>n\<bar> < 10 ^ 21 then decimal n else large n)"
| "json_ToString large (JStr s) = Some s"
| "json_ToString large (JArr xs) =
     join (map (\<lambda>x. if x = JNull then Some [] else json_ToString large x) xs)"
| "json_ToString large (JObj kvs) =
     (if map_of kvs ''toString'' = None then Some ''[object Object]'' else None)"

definition ToString :: "natives \<Rightarrow> json js \<Rightarrow> string option" where
  "ToString native v =
     (case v of
        Undefined \<Rightarrow> Some ''undefined''
      | Value j \<Rightarrow> json_ToString (number_text native) j
      | Builtin b \<Rightarrow> Some (builtin_text native b))"

definition string_ToString :: "natives \<Rightarrow> string js \<Rightarrow> string" where
  "string_ToString native v =
     (case v of
        Undefined \<Rightarrow> ''undefined''
      | Value s \<Rightarrow> s
      | Builtin b \<Rightarrow> builtin_text native b)"

text \<open>
  \<open>input.split(/[/\\]/)\<close>: the pieces between separators; the result is never empty.
\<close>

fun js_split :: "(char \<Rightarrow> bool) \<Rightarrow> string \<Rightarrow> string list" where
  "js_split sep [] = [[]]"
| "js_split sep (c # cs) =
     (if sep c then [] # js_split sep cs
      else (case js_split sep cs of p # ps \<Rightarrow> (c # p) # ps | [] \<Rightarrow> [[c]]))"

text \<open>
  \<open>new Blob([bytes], {type})\<close>: the type is converted to text, and the constructor
  stores it in lower case, or stores the empty text when a character lies outside
  U+0020 to U+007E. The new blob has no name.
\<close>

definition printable :: "char \<Rightarrow> bool" where
  "printable c = (0x20 \<le> (of_char c :: nat) \<and> (of_char c :: nat) \<le> 0x7E)"

definition new_Blob :: "byte list \<Rightarrow> string \<Rightarrow> blob" where
  "new_Blob bytes type =
     \<lparr>blob_bytes = bytes,
      blob_type = (if list_all printable type then toLowerCase type else []),
      blob_name = None\<rparr>"

section \<open>errors.ts\<close>

datatype ErrorClass =
    PoofError
  | AuthenticationError
  | PermissionError
  | PaymentRequiredError
  | RateLimitError
  | ValidationError
  | ServerError

text \<open>
  An instance of \<open>PoofError\<close> or of one of its subclasses. \<open>code\<close>, \<open>requestId\<close> and
  \<open>details\<close> hold what the constructor was given, which for an error built from a
  response body is whatever the body held.
\<close>

record error_object =
  instanceof :: ErrorClass
  name :: string
  message :: string
  code :: "json js"
  status :: "int option"
  requestId :: "json js"
  details :: "json js"

text \<open>
  What the code can throw: \<open>new Error(message)\<close>, an error object of the SDK, a
  \<open>TypeError\<close> raised by the language or by the host's \<open>Headers\<close>, a rejection passed
  on from the host, and the object \<open>new Object(message)\<close> returns.
\<close>

datatype thrown =
    PlainError string
  | PoofThrown error_object
  | TypeError
  | HostThrown host_error
  | ObjectThrown "json js"

fun class_name :: "ErrorClass \<Rightarrow> string" where
  "class_name PoofError = ''PoofError''"
| "class_name AuthenticationError = ''AuthenticationError''"
| "class_name PermissionError = ''PermissionError''"
| "class_name PaymentRequiredError = ''PaymentRequiredError''"
| "class_name RateLimitError = ''RateLimitError''"
| "class_name ValidationError = ''ValidationError''"
| "class_name ServerError = ''ServerError''"

text \<open>
  The constructor shared by the seven classes: \<open>super(message)\<close> stores the text of
  the message (the empty text of \<open>Error.prototype\<close> when the message is \<open>undefined\<close>),
  and each subclass sets its own name after the base constructor has run.
\<close>

definition new_error ::
  "natives \<Rightarrow> ErrorClass \<Rightarrow> json js \<Rightarrow> json js \<Rightarrow> int option \<Rightarrow> json js \<Rightarrow> json js
     \<Rightarrow> thrown + error_object" where
  "new_error native cls msg cd st rid det =
     (case (if msg = Undefined then Some [] else ToString native msg) of
        None \<Rightarrow> Inl TypeError
      | Some text \<Rightarrow>
          Inr \<lparr>instanceof = cls, name = class_name cls, message = text, code = cd,
               status = st, requestId = rid, details = det\<rparr>)"

definition ERROR_MAP :: "(string \<times> ErrorClass) list" where
  "ERROR_MAP =
     [(''authentication_error'', AuthenticationError),
      (''permission_denied'', PermissionError),
      (''payment_required'', PaymentRequiredError),
      (''rate_limit_exceeded'', RateLimitError),
      (''validation_error'', ValidationError),
      (''missing_image'', ValidationError),
      (''image_too_large'', ValidationError),
      (''upstream_error'', ServerError),
      (''internal_server_error'', ServerError)]"

text \<open>
  \<open>PoofError.fromResponse\<close>. Its argument is what \<open>response.json()\<close> gave, so the four
  members are read from a parsed JSON value. \<open>read_member\<close> is the read \<open>v.key\<close> on a
  value other than \<open>null\<close>, for the keys the code and its callers read: an object
  answers as a table does, and an array, string, number or boolean has none of them.
  On \<open>null\<close> the first read raises. The result is what \<open>new ErrorClass(...)\<close> returns:
  an error object, or for the inherited \<open>Object\<close> constructor the object made of the
  message. An inherited built-in that is no constructor raises a \<open>TypeError\<close>.
\<close>

datatype created = ErrorInstance error_object | ObjectInstance "json js"

definition read_member :: "json \<Rightarrow> string \<Rightarrow> json js" where
  "read_member v key = (case v of JObj kvs \<Rightarrow> property kvs key | _ \<Rightarrow> Undefined)"

definition fromResponse :: "natives \<Rightarrow> json \<Rightarrow> int \<Rightarrow> thrown + created" where
  "fromResponse native response st =
     (if response = JNull then Inl TypeError
      else case ToString native (read_member response ''code'') of
        None \<Rightarrow> Inl TypeError
      | Some key \<Rightarrow>
         (case property ERROR_MAP key of
            Undefined \<Rightarrow>
              map_sum id ErrorInstance
                (new_error native PoofError (read_member response ''message'') (read_member response ''code'')
                   (Some st) (read_member response ''request_id'') (read_member response ''details''))
          | Value ErrorClass \<Rightarrow>
              map_sum id ErrorInstance
                (new_error native ErrorClass (read_member response ''message'') (read_member response ''code'')
                   (Some st) (read_member response ''request_id'') (read_member response ''details''))
          | Builtin ObjectConstructor \<Rightarrow> Inr (ObjectInstance (read_member response ''message''))
          | Builtin _ \<Rightarrow> Inl TypeError))"

section \<open>utils.ts: getExtension, toBlob, getFilename\<close>

definition getExtension :: "string \<Rightarrow> string js" where
  "getExtension mimeType =
     or_else
       (property
          [(''image/png'', ''png''), (''image/jpeg'', ''jpg''), (''image/webp'', ''webp''),
           (''image/gif'', ''gif'')] mimeType)
       ''bin''"

definition mimeFromExt :: "(string \<times> string) list" where
  "mimeFromExt =
     [(''png'', ''image/png''), (''jpg'', ''image/jpeg''), (''jpeg'', ''image/jpeg''),
      (''webp'', ''image/webp''), (''gif'', ''image/gif'')]"

text \<open>
  \<open>toBlob\<close>, one equation per branch of the source, in its order. A \<open>Buffer\<close> is a
  \<open>Uint8Array\<close>, so the third test of the source already accepts it and the fourth
  builds the same blob. \<open>Inl\<close> is a throw.
\<close>

fun toBlob :: "host \<Rightarrow> image_input \<Rightarrow> thrown + blob" where
  "toBlob h (BlobInput input) = Inr input"
| "toBlob h (ArrayBufferInput input) = Inr (new_Blob input (detectMimeType input))"
| "toBlob h (Uint8ArrayInput input) = Inr (new_Blob input (detectMimeType input))"
| "toBlob h (BufferInput input) = Inr (new_Blob input (detectMimeType input))"
| "toBlob h (StringInput input) =
     (if \<not> isNode h
      then Inl (PlainError
        ''File paths are only supported in Node.js. Use a Blob or File in the browser.'')
      else case readFile h input of
        Inl e \<Rightarrow> Inl (HostThrown e)
      | Inr buffer \<Rightarrow>
          (let mimeType = detectMimeType buffer;
               ext = drop 1 (toLowerCase (extname h input));
               finalMimeType = or_else (property mimeFromExt ext) mimeType
           in Inr (new_Blob buffer (string_ToString (builtins h) finalMimeType))))"
| "toBlob h (OtherInput t) = Inl (PlainError (''Unsupported input type: '' @ t))"

text \<open>
  \<open>getFilename\<close>. \<open>input instanceof File\<close> is only evaluated when the host defines a
  global \<open>File\<close>; there it holds of the blobs that carry a name.
\<close>

definition getFilename :: "host \<Rightarrow> image_input \<Rightarrow> string \<Rightarrow> string" where
  "getFilename h input mimeType =
     (let generated = ''image.'' @ string_ToString (builtins h) (getExtension mimeType)
      in case input of
           BlobInput b \<Rightarrow>
             (case blob_name b of
                Some n \<Rightarrow> (if hasFile h then n else generated)
              | None \<Rightarrow> generated)
         | StringInput p \<Rightarrow>
             (if isNode h
              then (let parts = js_split (\<lambda>c. c = CHR ''/'' \<or> c = CHR 0x5C) p
                    in if last parts \<noteq> [] then last parts else generated)
              else generated)
         | _ \<Rightarrow> generated)"

section \<open>client.ts\<close>

text \<open>
  The options and the client. The key is a JavaScript string, a list of UTF-16 code
  units; the timeout is a whole number of milliseconds, possibly negative.
\<close>

record PoofOptions =
  apiKey :: utf16
  baseUrl :: "string option"
  timeout :: "int option"

record Poof =
  apiKey :: utf16
  baseUrl :: string
  timeout :: int

definition DEFAULT_BASE_URL :: string where
  "DEFAULT_BASE_URL = ''https://api.poof.bg/v1''"

definition DEFAULT_TIMEOUT :: int where
  "DEFAULT_TIMEOUT = 60000"

definition constructor :: "PoofOptions \<Rightarrow> thrown + Poof" where
  "constructor options =
     (if PoofOptions.apiKey options = [] then Inl (PlainError ''API key is required'')
      else Inr
        \<lparr>apiKey = PoofOptions.apiKey options,
         baseUrl =
           (case PoofOptions.baseUrl options of
              None \<Rightarrow> DEFAULT_BASE_URL
            | Some u \<Rightarrow>
                (let v = (if u \<noteq> [] \<and> last u = CHR ''/'' then butlast u else u)
                 in if v = [] then DEFAULT_BASE_URL else v)),
         timeout =
           (case PoofOptions.timeout options of
              None \<Rightarrow> DEFAULT_TIMEOUT
            | Some t \<Rightarrow> (if t = 0 then DEFAULT_TIMEOUT else t))\<rparr>)"

text \<open>
  \<open>new Headers(init)\<close> and \<open>headers.set(name, value)\<close>. A value given as a JavaScript
  string must be a byte string, none of its code units above U+00FF, or the host raises
  a \<open>TypeError\<close>. The host then strips the leading and trailing HTTP white space (tab,
  line feed, carriage return, space) and raises a \<open>TypeError\<close> when a NUL, a line feed
  or a carriage return is left in the value. Header names are kept in lower case; the
  names the code gives, \<open>Accept\<close> and \<open>x-api-key\<close>, are valid ones.
\<close>

definition ByteString :: "utf16 \<Rightarrow> string option" where
  "ByteString v =
     (if list_all (\<lambda>u. u \<le> 0xFF) v then Some (map (\<lambda>u. char_of (unat u)) v) else None)"

definition http_whitespace :: "char \<Rightarrow> bool" where
  "http_whitespace c = (c \<in> set [CHR 0x09, CHR 0x0A, CHR 0x0D, CHR 0x20])"

definition header_value :: "string \<Rightarrow> string option" where
  "header_value v =
     (let stripped = rev (dropWhile http_whitespace (rev (dropWhile http_whitespace v)))
      in if list_all (\<lambda>c. c \<notin> set [CHR 0x00, CHR 0x0A, CHR 0x0D]) stripped
         then Some stripped else None)"

fun new_Headers :: "(string \<times> string) list \<Rightarrow> thrown + (string \<times> string) list" where
  "new_Headers [] = Inr []"
| "new_Headers ((k, v) # init) =
     (case header_value v of
        None \<Rightarrow> Inl TypeError
      | Some b \<Rightarrow>
          (case new_Headers init of
             Inl t \<Rightarrow> Inl t
           | Inr hs \<Rightarrow> Inr ((toLowerCase k, b) # hs)))"

definition Headers_set ::
  "(string \<times> string) list \<Rightarrow> string \<Rightarrow> utf16 \<Rightarrow> thrown + (string \<times> string) list" where
  "Headers_set hs k v =
     (case ByteString v of
        None \<Rightarrow> Inl TypeError
      | Some bytes \<Rightarrow>
          (case header_value bytes of
             None \<Rightarrow> Inl TypeError
           | Some b \<Rightarrow>
               Inr (if map_of hs (toLowerCase k) = None then hs @ [(toLowerCase k, b)]
                    else map (\<lambda>(k', v'). if k' = toLowerCase k then (k', b) else (k', v')) hs)))"

text \<open>
  \<open>throw new PoofError(...)\<close> and \<open>throw PoofError.fromResponse(...)\<close>: the value
  thrown, or the \<open>TypeError\<close> raised while it was being made.
\<close>

definition throw_new :: "thrown + error_object \<Rightarrow> thrown" where
  "throw_new r = (case r of Inl t \<Rightarrow> t | Inr e \<Rightarrow> PoofThrown e)"

definition throw_created :: "thrown + created \<Rightarrow> thrown" where
  "throw_created r =
     (case r of
        Inl t \<Rightarrow> t
      | Inr (ErrorInstance e) \<Rightarrow> PoofThrown e
      | Inr (ObjectInstance v) \<Rightarrow> ObjectThrown v)"

text \<open>
  When the timer runs first, \<open>controller.abort()\<close> makes the pending \<open>fetch\<close> reject
  with the host's abort error, an instance of \<open>Error\<close> named \<open>AbortError\<close>.
\<close>

definition AbortError :: host_error where
  "AbortError = HostError True ''AbortError'' ''This operation was aborted''"

text \<open>
  A call returns the requests it sent, in order, and the promise it gave its caller:
  pending for ever, or settled, so many milliseconds after the request was sent, with
  \<open>Inl\<close> the value thrown or \<open>Inr\<close> the value returned. What a call does before it
  sends its request takes no time.
\<close>

type_synonym 'a call = "request list \<times> (thrown + 'a) promise"

definition catch :: "host \<Rightarrow> host_error \<Rightarrow> thrown" where
  "catch h error =
     (if instanceofError error \<and> error_name error = ''AbortError''
      then throw_new
        (new_error (builtins h) PoofError (Value (JStr ''Request timeout''))
           (Value (JStr ''timeout'')) (Some 408) Undefined Undefined)
      else HostThrown error)"

text \<open>
  The first lines of \<open>Poof.fetch\<close>, before its \<open>try\<close>: the headers are built and the
  key is set, which the host may refuse, and the timer is armed with \<open>this.timeout\<close>.
  The request is what \<open>fetch(url, {...init, headers, signal})\<close> is then given;
  \<open>abort_after\<close> is the delay its signal's timer was set with.
\<close>

definition build_request ::
  "Poof \<Rightarrow> string \<Rightarrow> string \<Rightarrow> (string \<times> string) list \<Rightarrow> FormData option \<Rightarrow> thrown + request" where
  "build_request this u m init_headers b =
     (case new_Headers init_headers of
        Inl t \<Rightarrow> Inl t
      | Inr hs0 \<Rightarrow>
          (case Headers_set hs0 ''x-api-key'' (Poof.apiKey this) of
             Inl t \<Rightarrow> Inl t
           | Inr hs \<Rightarrow>
               Inr \<lparr>url = u, http_method = m, headers = hs, body = b,
                    abort_after = Poof.timeout this\<rparr>))"

text \<open>
  The timer set with \<open>delay\<close> is served before an event that comes \<open>t\<close> milliseconds
  after the request was sent.
\<close>

definition timer_first :: "host \<Rightarrow> int \<Rightarrow> nat \<Rightarrow> bool" where
  "timer_first h delay t =
     (setTimeout_delay h delay < t \<or> (setTimeout_delay h delay = t \<and> timer_wins_tie h))"

text \<open>
  \<open>Poof.fetch\<close>. A key the host refuses makes the call reject before any request is
  sent. Otherwise the request goes out and the timer runs against it: when the timer is
  served first, \<open>controller.abort()\<close> makes the \<open>fetch\<close> reject with the abort error,
  which the \<open>catch\<close> block turns into the timeout error; when the \<open>fetch\<close> settles
  first, the \<open>finally\<close> block clears the timer, so that nothing limits the time the
  caller then takes to read the body.
\<close>

definition fetch ::
  "host \<Rightarrow> Poof \<Rightarrow> string \<Rightarrow> string \<Rightarrow> (string \<times> string) list \<Rightarrow> FormData option \<Rightarrow> response call" where
  "fetch h this u m init_headers b =
     (case build_request this u m init_headers b of
        Inl t \<Rightarrow> ([], Settles 0 (Inl t))
      | Inr req \<Rightarrow>
          ([req],
           (case native_fetch h req of
              Pending \<Rightarrow>
                Settles (setTimeout_delay h (abort_after req)) (Inl (catch h AbortError))
            | Settles t outcome \<Rightarrow>
                (if timer_first h (abort_after req) t
                 then Settles (setTimeout_delay h (abort_after req)) (Inl (catch h AbortError))
                 else case outcome of
                        Inl error \<Rightarrow> Settles t (Inl (catch h error))
                      | Inr r \<Rightarrow> Settles t (Inr r)))))"

definition ok :: "response \<Rightarrow> bool" where
  "ok r = (200 \<le> response.status r \<and> response.status r \<le> 299)"

text \<open>
  \<open>handleError\<close> awaits \<open>response.json()\<close>, so it settles when that does, and throws.
\<close>

definition handleError :: "host \<Rightarrow> response \<Rightarrow> thrown promise" where
  "handleError h r =
     (case json_body r of
        Pending \<Rightarrow> Pending
      | Settles u (Inl _) \<Rightarrow>
          Settles u
            (throw_new
               (new_error (builtins h) PoofError
                  (Value (JStr (''HTTP '' @ decimal (response.status r) @ '': '' @ statusText r)))
                  (Value (JStr ''unknown_error'')) (Some (response.status r)) Undefined Undefined))
      | Settles u (Inr errorData) \<Rightarrow>
          Settles u (throw_created (fromResponse (builtins h) errorData (response.status r))))"

definition me :: "host \<Rightarrow> Poof \<Rightarrow> json call" where
  "me h this =
     (case fetch h this (Poof.baseUrl this @ ''/me'') ''GET'' [(''Accept'', ''application/json'')] None of
        (sent, Pending) \<Rightarrow> (sent, Pending)
      | (sent, Settles t (Inl x)) \<Rightarrow> (sent, Settles t (Inl x))
      | (sent, Settles t (Inr r)) \<Rightarrow>
          (sent,
           delay_by t
             (if \<not> ok r then map_promise Inl (handleError h r)
              else case json_body r of
                     Pending \<Rightarrow> Pending
                   | Settles u (Inl e) \<Rightarrow> Settles u (Inl (HostThrown e))
                   | Settles u (Inr v) \<Rightarrow> Settles u (Inr v))))"

definition formData_append :: "FormData \<Rightarrow> string \<Rightarrow> string option \<Rightarrow> FormData" where
  "formData_append form k value =
     (case value of
        None \<Rightarrow> form
      | Some v \<Rightarrow> (if v = [] then form else form @ [(k, TextEntry v)]))"

definition formData :: "blob \<Rightarrow> string \<Rightarrow> RemoveBackgroundOptions \<Rightarrow> FormData" where
  "formData blob filename options =
     (let f0 = [(''image_file'', FileEntry blob filename)];
          f1 = formData_append f0 ''format'' (map_option ImageFormat_string (format options));
          f2 = formData_append f1 ''channels'' (map_option Channels_string (channels options));
          f3 = formData_append f2 ''bg_color'' (bgColor options);
          f4 = formData_append f3 ''size'' (map_option ImageSize_string (size' options))
      in case crop options of
           None \<Rightarrow> f4
         | Some c \<Rightarrow> f4 @ [(''crop'', TextEntry (if c then ''true'' else ''false''))])"

definition header_or :: "response \<Rightarrow> string \<Rightarrow> string \<Rightarrow> string" where
  "header_or r k d = (case headers_get r k of None \<Rightarrow> d | Some v \<Rightarrow> (if v = [] then d else v))"

definition removeBackground ::
  "host \<Rightarrow> Poof \<Rightarrow> image_input \<Rightarrow> RemoveBackgroundOptions \<Rightarrow> RemoveBackgroundResult call" where
  "removeBackground h this input options =
     (case toBlob h input of
        Inl t \<Rightarrow> ([], Settles 0 (Inl t))
      | Inr blob \<Rightarrow>
          (let filename = getFilename h input (blob_type blob)
           in case fetch h this (Poof.baseUrl this @ ''/remove'') ''POST'' []
                     (Some (formData blob filename options)) of
                (sent, Pending) \<Rightarrow> (sent, Pending)
              | (sent, Settles t (Inl x)) \<Rightarrow> (sent, Settles t (Inl x))
              | (sent, Settles t (Inr r)) \<Rightarrow>
                  (sent,
                   delay_by t
                     (if \<not> ok r then map_promise Inl (handleError h r)
                      else case arrayBuffer r of
                        Pending \<Rightarrow> Pending
                      | Settles u (Inl e) \<Rightarrow> Settles u (Inl (HostThrown e))
                      | Settles u (Inr d) \<Rightarrow>
                          Settles u (Inr
                            \<lparr>data = d,
                             metadata =
                               \<lparr>ProcessingMetadata.requestId = header_or r ''X-Request-ID'' [],
                                processingTimeMs =
                                  parseInt10 h (header_or r ''X-Processing-Time-Ms'' ''0''),
                                width = parseInt10 h (header_or r ''X-Image-Width'' ''0''),
                                height = parseInt10 h (header_or r ''X-Image-Height'' ''0''),
                                contentType = header_or r ''Content-Type'' ''image/png''\<rparr>\<rparr>)))))"

text \<open>
  The normalized payload of a call: the blob \<open>toBlob\<close> returns with the file name
  \<open>getFilename\<close> gives it, as \<open>removeBackground\<close> computes them before it builds the
  form.
\<close>

definition normalize :: "host \<Rightarrow> image_input \<Rightarrow> thrown + (blob \<times> string)" where
  "normalize h input =
     (case toBlob h input of
        Inl t \<Rightarrow> Inl t
      | Inr blob \<Rightarrow> Inr (blob, getFilename h input (blob_type blob)))"

section \<open>The specification's tables\<close>

text \<open>
  The extension map and the error-kind map as the specification words them, and the
  errors it describes, for comparison with \<open>mimeFromExt\<close>, \<open>ERROR_MAP\<close> and the
  errors the client builds.
\<close>

definition extension_type :: "string \<Rightarrow> string option" where
  "extension_type e =
     (if e = ''png'' then Some ''image/png''
      else if e = ''jpg'' \<or> e = ''jpeg'' then Some ''image/jpeg''
      else if e = ''webp'' then Some ''image/webp''
      else if e = ''gif'' then Some ''image/gif''
      else None)"

definition documented_kind :: "string \<Rightarrow> ErrorClass" where
  "documented_kind c =
     (if c = ''authentication_error'' then AuthenticationError
      else if c = ''permission_denied'' then PermissionError
      else if c = ''payment_required'' then PaymentRequiredError
      else if c = ''rate_limit_exceeded'' then RateLimitError
      else if c = ''validation_error'' \<or> c = ''missing_image'' \<or> c = ''image_too_large''
      then ValidationError
      else if c = ''upstream_error'' \<or> c = ''internal_server_error'' then ServerError
      else PoofError)"

text \<open>
  The error of class \<open>cls\<close> that carries a payload and a transport status through:
  the payload's message, code, request id and details, and the status.
\<close>

definition carried :: "ErrorClass \<Rightarrow> ApiErrorResponse \<Rightarrow> int \<Rightarrow> error_object" where
  "carried cls p st =
     \<lparr>instanceof = cls, name = class_name cls, message = ApiErrorResponse.message p,
      code = Value (JStr (ApiErrorResponse.code p)), status = Some st,
      requestId = Value (JStr (request_id p)),
      details = (case ApiErrorResponse.details p of None \<Rightarrow> Undefined | Some d \<Rightarrow> Value (JStr d))\<rparr>"


definition unknown_error :: "int \<Rightarrow> string \<Rightarrow> error_object" where
  "unknown_error st text =
     \<lparr>instanceof = PoofError, name = ''PoofError'',
      message = ''HTTP '' @ decimal st @ '': '' @ text,
      code = Value (JStr ''unknown_error''), status = Some st, requestId = Undefined,
      details = Undefined\<rparr>"


section \<open>Example hosts\<close>

text \<open>
  Concrete hosts on which the results below are instantiated. The file system holds
  one file, \<open>/tmp/cat.PNG\<close>, whose bytes begin like a JPEG; built-in objects print as
  V8 prints them, every number prints digit by digit and \<open>parseInt\<close> knows the text
  \<open>0\<close>; a timer waits as Node.js documents it, one millisecond for a delay below 1 or
  above 2147483647, and is served before the network; the network settles every request
  in the given way.
\<close>

definition example_native :: natives where
  "example_native =
     \<lparr>builtin_text =
        (\<lambda>b. case b of
           ObjectConstructor \<Rightarrow> ''function Object() { [native code] }''
         | ObjectPrototype \<Rightarrow> ''[object Object]''
         | NativeFunction f \<Rightarrow> ''function '' @ f @ ''() { [native code] }''),
      number_text = decimal\<rparr>"

definition example_parseInt10 :: "string \<Rightarrow> number" where
  "example_parseInt10 s = (if s = ''0'' then Integer 0 else NaN)"

definition example_setTimeout_delay :: "int \<Rightarrow> nat" where
  "example_setTimeout_delay delay = (if delay < 1 \<or> 2147483647 < delay then 1 else nat delay)"

definition example_readFile :: "string \<Rightarrow> host_error + byte list" where
  "example_readFile p =
     (if p = ''/tmp/cat.PNG'' then Inr [0xFF, 0xD8, 0xFF, 0xE0]
      else Inl (HostError True ''Error'' ''ENOENT: no such file or directory''))"

definition example_extname :: "string \<Rightarrow> string" where
  "example_extname p = (if p = ''/tmp/cat.PNG'' then ''.PNG'' else [])"

definition example_host :: "bool \<Rightarrow> bool \<Rightarrow> (host_error + response) promise \<Rightarrow> host" where
  "example_host node file s =
     \<lparr>isNode = node, hasFile = file, readFile = example_readFile, extname = example_extname,
      builtins = example_native, parseInt10 = example_parseInt10,
      setTimeout_delay = example_setTimeout_delay, timer_wins_tie = True,
      native_fetch = (\<lambda>_. s)\<rparr>"

definition no_headers :: "string \<Rightarrow> string option" where
  "no_headers k = None"

text \<open>
  A response whose body has arrived with it, and one whose body never arrives. A client
  with a plain key, and one whose key has a line feed inside.
\<close>

definition example_response :: "int \<Rightarrow> string \<Rightarrow> host_error + json \<Rightarrow> response" where
  "example_response st text parsed =
     \<lparr>response.status = st, statusText = text, headers_get = no_headers,
      json_body = Settles 0 parsed, arrayBuffer = Settles 0 (Inr [])\<rparr>"


definition example_client :: Poof where
  "example_client =
     \<lparr>apiKey = utf16_of ''secret'', baseUrl = DEFAULT_BASE_URL, timeout = DEFAULT_TIMEOUT\<rparr>"

definition refused_client :: Poof where
  "refused_client =
     \<lparr>apiKey = utf16_of [CHR ''a'', CHR 0x0A, CHR ''b''], baseUrl = DEFAULT_BASE_URL,
      timeout = DEFAULT_TIMEOUT\<rparr>"


definition SyntaxError :: host_error where
  "SyntaxError = HostError True ''SyntaxError'' ''Unexpected token < in JSON at position 0''"

text \<open>
  The success body of the account scenario under the names of the wire contract, the
  same account under the names of \<open>AccountInfo\<close>, and a PNG header.
\<close>

definition scenario5 :: json where
  "scenario5 =
     JObj [(''organization_id'', JStr ''o1''), (''plan'', JStr ''pro''), (''max_credits'', JNum 1000),
           (''used_credits'', JNum 200), (''auto_recharge_threshold'', JNull)]"

definition account_body :: json where
  "account_body =
     JObj [(''organizationId'', JStr ''o1''), (''plan'', JStr ''pro''), (''maxCredits'', JNum 1000),
           (''usedCredits'', JNum 200), (''autoRechargeThreshold'', JNull)]"

definition png_header :: "byte list" where
  "png_header = [0x89, 0x50, 0x4E, 0x47, 0x0D, 0x0A, 0x1A, 0x0A]"

definition no_options :: RemoveBackgroundOptions where
  "no_options = \<lparr>format = None, channels = None, bgColor = None, size' = None, crop = None\<rparr>"


section \<open>Signature detection\<close>

lemma at_take: "at (take n buffer) i = (if i < n then at buffer i else None)"
  by (simp add: at_def)

lemma has_bytes_Nil: "has_bytes buffer offset [] = True"
  by (simp add: has_bytes_def)

lemma has_bytes_Cons:
  "has_bytes buffer offset (x # sig) = (at buffer offset = Some x \<and> has_bytes buffer (Suc offset) sig)"
proof (cases "offset < length buffer")
  case True
  then have "drop offset buffer = buffer ! offset # drop (Suc offset) buffer"
    by (simp add: Cons_nth_drop_Suc)
  with True show ?thesis
    by (simp add: has_bytes_def at_def)
next
  case False
  then show ?thesis
    by (simp add: has_bytes_def at_def)
qed

lemma has_bytes_at0_3:
  "has_bytes buffer 0 [a, b, c] =
     (at buffer 0 = Some a \<and> at buffer 1 = Some b \<and> at buffer 2 = Some c)"
  by (simp add: has_bytes_Cons has_bytes_Nil numeral_2_eq_2)

lemma has_bytes_at0_4:
  "has_bytes buffer 0 [a, b, c, d] =
     (at buffer 0 = Some a \<and> at buffer 1 = Some b \<and> at buffer 2 = Some c
      \<and> at buffer 3 = Some d)"
  by (simp add: has_bytes_Cons has_bytes_Nil numeral_2_eq_2 numeral_3_eq_3)

lemma has_bytes_at8_4:
  "has_bytes buffer 8 [a, b, c, d] =
     (at buffer 8 = Some a \<and> at buffer 9 = Some b \<and> at buffer 10 = Some c
      \<and> at buffer 11 = Some d)"
proof -
  have "Suc 8 = 9" "Suc 9 = 10" "Suc 10 = 11"
    by simp_all
  then show ?thesis
    by (simp only: has_bytes_Cons has_bytes_Nil simp_thms)
qed

lemma detectMimeType_signature: "detectMimeType buffer = signature_type buffer"
  unfolding detectMimeType_def signature_type_def has_bytes_at0_3 has_bytes_at0_4 has_bytes_at8_4
  by (rule refl)

lemma detectMimeType_take12: "detectMimeType (take 12 buffer) = detectMimeType buffer"
  by (simp add: detectMimeType_def at_take)

lemma detectMimeType_range:
  "detectMimeType buffer \<in> set [''image/png'', ''image/jpeg'', ''image/webp'', ''image/gif'',
      ''application/octet-stream'']"
  by (simp add: detectMimeType_def)

lemma new_Blob_mime:
  "t \<in> set [''image/png'', ''image/jpeg'', ''image/webp'', ''image/gif'',
      ''application/octet-stream''] \<Longrightarrow>
   new_Blob bytes t = \<lparr>blob_bytes = bytes, blob_type = t, blob_name = None\<rparr>"
  by (auto simp: new_Blob_def printable_def toLowerCase_def)

lemma new_Blob_detectMimeType:
  "new_Blob bytes (detectMimeType bytes) =
     \<lparr>blob_bytes = bytes, blob_type = detectMimeType bytes, blob_name = None\<rparr>"
  by (rule new_Blob_mime [OF detectMimeType_range])

text \<open>
  C4. A byte buffer with no declared content type (an \<open>ArrayBuffer\<close>, a \<open>Uint8Array\<close>
  or a \<open>Buffer\<close>) is normalized to a blob of the same bytes whose type is read off
  its first 12 bytes: PNG for 89 50 4E 47 at offset 0, else JPEG for FF D8 FF, else WEBP
  for 52 49 46 46 at offset 0 together with 57 45 42 50 at offset 8, else GIF for
  47 49 46, else \<open>application/octet-stream\<close>.
\<close>

theorem toBlob_buffer_signature:
  "toBlob h (ArrayBufferInput bytes) =
     Inr \<lparr>blob_bytes = bytes, blob_type = signature_type (take 12 bytes), blob_name = None\<rparr>
   \<and> toBlob h (Uint8ArrayInput bytes) =
     Inr \<lparr>blob_bytes = bytes, blob_type = signature_type (take 12 bytes), blob_name = None\<rparr>
   \<and> toBlob h (BufferInput bytes) =
     Inr \<lparr>blob_bytes = bytes, blob_type = signature_type (take 12 bytes), blob_name = None\<rparr>"
proof -
  have "detectMimeType bytes = signature_type (take 12 bytes)"
    using detectMimeType_take12 [of bytes] detectMimeType_signature [of "take 12 bytes"] by simp
  then show ?thesis
    using new_Blob_detectMimeType [of bytes] by simp
qed

text \<open>
  C10. Detection is total: on every buffer it returns one of the five content types. A
  read at or past the length of the buffer yields \<open>undefined\<close> and does not fault, so
  a buffer shorter than a signature is never given that signature's type, and a buffer
  of fewer than 3 bytes, the empty one included, is \<open>application/octet-stream\<close>.
\<close>

theorem detectMimeType_total:
  "detectMimeType buffer \<in> set [''image/png'', ''image/jpeg'', ''image/webp'', ''image/gif'',
      ''application/octet-stream'']
   \<and> (length buffer \<le> i \<longrightarrow> at buffer i = None)
   \<and> (length buffer < 4 \<longrightarrow> detectMimeType buffer \<noteq> ''image/png'')
   \<and> (length buffer < 3 \<longrightarrow> detectMimeType buffer \<noteq> ''image/jpeg'')
   \<and> (length buffer < 12 \<longrightarrow> detectMimeType buffer \<noteq> ''image/webp'')
   \<and> (length buffer < 3 \<longrightarrow> detectMimeType buffer \<noteq> ''image/gif'')
   \<and> (length buffer < 3 \<longrightarrow> detectMimeType buffer = ''application/octet-stream'')"
proof -
  have png: "length buffer < 4 \<Longrightarrow> at buffer 3 = None"
    by (simp add: at_def)
  have short: "length buffer < 3 \<Longrightarrow> at buffer 2 = None"
    by (simp add: at_def)
  have webp: "length buffer < 12 \<Longrightarrow> at buffer 11 = None"
    by (simp add: at_def)
  have beyond: "length buffer \<le> i \<Longrightarrow> at buffer i = None"
    by (simp add: at_def)
  show ?thesis
    using png short webp beyond detectMimeType_range [of buffer]
    by (auto simp: detectMimeType_def)
qed

theorem detectMimeType_total_witness:
  "length ([] :: byte list) < 3 \<and> detectMimeType [] = ''application/octet-stream''
   \<and> length ([] :: byte list) \<le> 0 \<and> at [] 0 = None
   \<and> length [0x52, 0x49, 0x46, 0x46 :: byte] < 12
   \<and> detectMimeType [0x52, 0x49, 0x46, 0x46] \<noteq> ''image/webp''
   \<and> length [0x89, 0x50, 0x4E :: byte] < 4
   \<and> detectMimeType [0x89, 0x50, 0x4E] \<noteq> ''image/png''"
  using detectMimeType_total [of "[]" 0] detectMimeType_total [of "[0x52, 0x49, 0x46, 0x46]" 4]
    detectMimeType_total [of "[0x89, 0x50, 0x4E]" 3]
  by simp

section \<open>Normalizing paths and unsupported inputs\<close>

lemma mimeFromExt_extension_type:
  "extension_type e = Some t \<Longrightarrow> property mimeFromExt e = Value t"
  by (auto simp: extension_type_def property_def mimeFromExt_def split: if_splits)

lemma extension_type_range:
  "extension_type e = Some t \<Longrightarrow>
     t \<in> set [''image/png'', ''image/jpeg'', ''image/webp'', ''image/gif'',
      ''application/octet-stream'']"
  by (auto simp: extension_type_def split: if_splits)

text \<open>
  C5. In a Node.js host, for a path whose file can be read and whose extension (the
  text \<open>path.extname\<close> gives, in lower case, without its dot) is png, jpg, jpeg, webp
  or gif, the blob has the file's bytes and the content type of the extension map,
  whatever the bytes are: the signature of the bytes plays no part.
\<close>

theorem toBlob_path_extension:
  assumes "isNode h" and "readFile h path = Inr bytes"
    and "extension_type (drop 1 (toLowerCase (extname h path))) = Some t"
  shows "toBlob h (StringInput path) = Inr \<lparr>blob_bytes = bytes, blob_type = t, blob_name = None\<rparr>"
proof -
  have "t \<noteq> []"
    using extension_type_range [OF assms(3)] by auto
  then have "or_else (property mimeFromExt (drop 1 (toLowerCase (extname h path))))
      (detectMimeType bytes) = Value t"
    using mimeFromExt_extension_type [OF assms(3)] by (simp add: or_else_def)
  then show ?thesis
    using assms(1,2) new_Blob_mime [OF extension_type_range [OF assms(3)], of bytes]
    by (simp add: string_ToString_def)
qed

theorem toBlob_path_extension_witness:
  "isNode (example_host True False Pending)
   \<and> readFile (example_host True False Pending) ''/tmp/cat.PNG'' = Inr [0xFF, 0xD8, 0xFF, 0xE0]
   \<and> extension_type
        (drop 1 (toLowerCase (extname (example_host True False Pending) ''/tmp/cat.PNG'')))
       = Some ''image/png''
   \<and> detectMimeType [0xFF, 0xD8, 0xFF, 0xE0] = ''image/jpeg''
   \<and> toBlob (example_host True False Pending) (StringInput ''/tmp/cat.PNG'') =
       Inr \<lparr>blob_bytes = [0xFF, 0xD8, 0xFF, 0xE0], blob_type = ''image/png'', blob_name = None\<rparr>"
proof -
  let ?h = "example_host True False Pending"
  have a: "isNode ?h"
    by (simp add: example_host_def)
  have b: "readFile ?h ''/tmp/cat.PNG'' = Inr [0xFF, 0xD8, 0xFF, 0xE0]"
    by (simp add: example_host_def example_readFile_def)
  have c: "extension_type (drop 1 (toLowerCase (extname ?h ''/tmp/cat.PNG''))) = Some ''image/png''"
    by (simp add: example_host_def example_extname_def toLowerCase_def extension_type_def)
  have d: "detectMimeType [0xFF, 0xD8, 0xFF, 0xE0] = ''image/jpeg''"
    by (simp add: detectMimeType_def at_def)
  show ?thesis
    using a b c d toBlob_path_extension [OF a b c] by simp
qed

lemma toBlob_path_fallback:
  assumes "isNode h" and "readFile h path = Inr bytes"
    and "property mimeFromExt (drop 1 (toLowerCase (extname h path))) = Undefined"
  shows "toBlob h (StringInput path) =
     Inr \<lparr>blob_bytes = bytes, blob_type = detectMimeType bytes, blob_name = None\<rparr>"
  using assms new_Blob_detectMimeType [of bytes]
  by (simp add: or_else_def string_ToString_def)

text \<open>
  C3, as the code has it. An input outside the closed set fails with
  \<open>new Error('Unsupported input type: ' + typeof input)\<close>, and a path string in a host
  that is not Node.js fails with \<open>new Error('File paths are only supported in Node.js.
  Use a Blob or File in the browser.')\<close>. Both are instances of the one class \<open>Error\<close>,
  told apart by their messages only.
\<close>

theorem toBlob_failures:
  "toBlob h (OtherInput t) = Inl (PlainError (''Unsupported input type: '' @ t))
   \<and> (\<not> isNode h \<longrightarrow>
        toBlob h (StringInput path) =
          Inl (PlainError
            ''File paths are only supported in Node.js. Use a Blob or File in the browser.''))
   \<and> ''Unsupported input type: '' @ t \<noteq>
        ''File paths are only supported in Node.js. Use a Blob or File in the browser.''"
  by simp

theorem toBlob_failures_witness:
  "\<not> isNode (example_host False True Pending)
   \<and> toBlob (example_host False True Pending) (StringInput ''photo.png'') =
       Inl (PlainError
         ''File paths are only supported in Node.js. Use a Blob or File in the browser.'')
   \<and> toBlob (example_host False True Pending) (OtherInput ''number'') =
       Inl (PlainError ''Unsupported input type: number'')"
  using toBlob_failures [of "example_host False True Pending" "''number''" "''photo.png''"]
  by (simp add: example_host_def)

text \<open>
  C3 as stated fails: the two failures are not two distinct typed error kinds. In a
  browser-like host a number and a path both fail with a plain \<open>Error\<close>.
\<close>

theorem toBlob_failures_same_class:
  "toBlob (example_host False True Pending) (OtherInput ''number'') =
     Inl (PlainError ''Unsupported input type: number'')
   \<and> toBlob (example_host False True Pending) (StringInput ''/tmp/cat.PNG'') =
     Inl (PlainError
       ''File paths are only supported in Node.js. Use a Blob or File in the browser.'')"
  by (simp add: example_host_def)

section \<open>Blobs and files\<close>

text \<open>
  C9, as the code has it. A blob or file is passed through unchanged, bytes and
  content type; where the host defines a global \<open>File\<close> class, the name of a file is
  kept as the file name.
\<close>

theorem normalize_blob_identity:
  "toBlob h (BlobInput b) = Inr b
   \<and> map_sum id fst (normalize h (BlobInput b)) = Inr b
   \<and> (hasFile h \<longrightarrow> blob_name b = Some n \<longrightarrow> normalize h (BlobInput b) = Inr (b, n))"
  by (simp add: normalize_def getFilename_def)

theorem normalize_blob_identity_witness:
  "hasFile (example_host False True Pending)
   \<and> blob_name \<lparr>blob_bytes = [0x47, 0x49, 0x46], blob_type = ''image/gif'',
        blob_name = Some ''cat.gif''\<rparr> = Some ''cat.gif''
   \<and> normalize (example_host False True Pending)
        (BlobInput \<lparr>blob_bytes = [0x47, 0x49, 0x46], blob_type = ''image/gif'',
           blob_name = Some ''cat.gif''\<rparr>) =
       Inr (\<lparr>blob_bytes = [0x47, 0x49, 0x46], blob_type = ''image/gif'',
              blob_name = Some ''cat.gif''\<rparr>, ''cat.gif'')"
  using normalize_blob_identity [of "example_host False True Pending"
      "\<lparr>blob_bytes = [0x47, 0x49, 0x46], blob_type = ''image/gif'', blob_name = Some ''cat.gif''\<rparr>"
      "''cat.gif''"]
  by (simp add: example_host_def)

text \<open>
  C9 as stated fails where the host has no global \<open>File\<close> class (Node.js 18, whose
  \<open>File\<close> lives in \<open>node:buffer\<close>): the test \<open>typeof File !== 'undefined'\<close> is false, and
  a file named \<open>cat.gif\<close> is sent under the generated name \<open>image.gif\<close>.
\<close>

theorem normalize_named_blob_without_File:
  "normalize (example_host True False Pending)
     (BlobInput \<lparr>blob_bytes = [0x47, 0x49, 0x46], blob_type = ''image/gif'',
        blob_name = Some ''cat.gif''\<rparr>) =
   Inr (\<lparr>blob_bytes = [0x47, 0x49, 0x46], blob_type = ''image/gif'',
          blob_name = Some ''cat.gif''\<rparr>, ''image.gif'')"
  by (simp add: normalize_def getFilename_def example_host_def getExtension_def property_def
      or_else_def string_ToString_def)

section \<open>The outbound form\<close>

lemma map_of_snoc:
  "map_of (form @ [(k, v)]) k' =
     (case map_of form k' of Some x \<Rightarrow> Some x | None \<Rightarrow> (if k' = k then Some v else None))"
  by (simp add: map_add_def split: option.splits)

lemma map_of_formData_append:
  "map_of (formData_append form k v) k' =
     (case map_of form k' of
        Some x \<Rightarrow> Some x
      | None \<Rightarrow> (if k' = k \<and> v \<noteq> None \<and> v \<noteq> Some [] then map_option TextEntry v else None))"
  by (cases v)
    (auto simp del: map_of_append simp: formData_append_def map_of_snoc split: option.splits)

lemma keys_formData_append:
  "map fst (formData_append form k v) =
     map fst form @ (if v \<noteq> None \<and> v \<noteq> Some [] then [k] else [])"
  by (cases v) (auto simp: formData_append_def)

lemma ImageFormat_string_truthy: "ImageFormat_string f \<noteq> []"
  by (cases f) simp_all

lemma Channels_string_truthy: "Channels_string c \<noteq> []"
  by (cases c) simp_all

lemma ImageSize_string_truthy: "ImageSize_string s \<noteq> []"
  by (cases s) simp_all

lemma formData_fields:
  "map_of (formData blob filename options) ''image_file'' = Some (FileEntry blob filename)"
  "map_of (formData blob filename options) ''format'' =
      map_option (\<lambda>f. TextEntry (ImageFormat_string f)) (format options)"
  "map_of (formData blob filename options) ''channels'' =
      map_option (\<lambda>c. TextEntry (Channels_string c)) (channels options)"
  "map_of (formData blob filename options) ''bg_color'' =
      (case bgColor options of
         None \<Rightarrow> None
       | Some c \<Rightarrow> (if c = [] then None else Some (TextEntry c)))"
  "map_of (formData blob filename options) ''size'' =
      map_option (\<lambda>s. TextEntry (ImageSize_string s)) (size' options)"
  "map_of (formData blob filename options) ''crop'' =
      map_option (\<lambda>c. TextEntry (if c then ''true'' else ''false'')) (crop options)"
  by (simp_all del: map_of_append add: formData_def Let_def map_of_formData_append map_of_snoc
      ImageFormat_string_truthy Channels_string_truthy ImageSize_string_truthy option.map_comp
      comp_def split: option.splits)

lemma formData_keys:
  "map fst (formData blob filename options) =
     ''image_file'' #
     (if format options = None then [] else [''format'']) @
     (if channels options = None then [] else [''channels'']) @
     (if bgColor options = None \<or> bgColor options = Some [] then [] else [''bg_color'']) @
     (if size' options = None then [] else [''size'']) @
     (if crop options = None then [] else [''crop''])"
  by (simp add: formData_def Let_def keys_formData_append
      ImageFormat_string_truthy Channels_string_truthy ImageSize_string_truthy
      split: option.splits)

subsection \<open>The key as a header value\<close>

lemma unat_utf16_of_char: "unat (of_nat (of_char c) :: 16 word) = of_char c"
proof -
  have "(of_char c :: nat) < 65536"
    using nat_of_char_less_256 [of c] by linarith
  then show ?thesis
    by (simp add: unat_of_nat)
qed

lemma ByteString_utf16_of: "ByteString (utf16_of s) = Some s"
proof -
  have "of_nat (of_char c) \<le> (0xFF :: 16 word)" for c
  proof -
    have "(of_char c :: nat) \<le> 255"
      using nat_of_char_less_256 [of c] by linarith
    then show ?thesis
      by (simp add: word_le_nat_alt unat_utf16_of_char)
  qed
  then show ?thesis
    by (simp add: ByteString_def utf16_of_def list_all_iff unat_utf16_of_char comp_def)
qed

lemma Headers_set_secret:
  "Headers_set [] ''x-api-key'' (utf16_of ''secret'') = Inr [(''x-api-key'', ''secret'')]"
  by (simp add: Headers_set_def ByteString_utf16_of header_value_def http_whitespace_def
      toLowerCase_def)

lemma Headers_set_line_feed:
  "Headers_set [] ''x-api-key'' (utf16_of [CHR ''a'', CHR 0x0A, CHR ''b'']) = Inl TypeError"
  by (simp add: Headers_set_def ByteString_utf16_of header_value_def http_whitespace_def)

lemma Headers_set_above_FF: "Headers_set hs k [0x100] = Inl TypeError"
  by (simp add: Headers_set_def ByteString_def)

lemma removeBackground_sent:
  "toBlob h input = Inr blob \<Longrightarrow>
   fst (removeBackground h this input options) =
     (case build_request this (Poof.baseUrl this @ ''/remove'') ''POST'' []
             (Some (formData blob (getFilename h input (blob_type blob)) options)) of
        Inl refused \<Rightarrow> []
      | Inr req \<Rightarrow> [req])"
  by (simp add: removeBackground_def fetch_def Let_def split: sum.split promise.split)

lemma removeBackground_sent_forms:
  "toBlob h input = Inr blob \<Longrightarrow>
   map body (fst (removeBackground h this input options)) =
     (case Headers_set [] ''x-api-key'' (Poof.apiKey this) of
        Inl refused \<Rightarrow> []
      | Inr accepted \<Rightarrow>
          [Some (formData blob (getFilename h input (blob_type blob)) options)])"
  by (simp add: removeBackground_sent build_request_def split: sum.split)

text \<open>
  C8, as the code has it. A call whose input normalizes and whose API key the host
  accepts as a header value sends one request, whose form holds the blob and its file
  name under \<open>image_file\<close>, then, in this order and each at most once, \<open>format\<close>,
  \<open>channels\<close>, \<open>bg_color\<close>, \<open>size\<close> and \<open>crop\<close> for the options the caller gave,
  \<open>crop\<close> as the text \<open>true\<close> or \<open>false\<close>; an option not given is left out, and so
  is a background colour given as the empty string. When the host refuses the key,
  \<open>headers.set\<close> throws and no request is sent.
\<close>

theorem removeBackground_form:
  assumes "toBlob h input = Inr blob"
  shows "map body (fst (removeBackground h this input options)) =
       (case Headers_set [] ''x-api-key'' (Poof.apiKey this) of
          Inl refused \<Rightarrow> []
        | Inr accepted \<Rightarrow>
            [Some (formData blob (getFilename h input (blob_type blob)) options)])
     \<and> map_of (formData blob filename options) ''image_file'' = Some (FileEntry blob filename)
     \<and> map_of (formData blob filename options) ''format'' =
          map_option (\<lambda>f. TextEntry (ImageFormat_string f)) (format options)
     \<and> map_of (formData blob filename options) ''channels'' =
          map_option (\<lambda>c. TextEntry (Channels_string c)) (channels options)
     \<and> map_of (formData blob filename options) ''bg_color'' =
          (case bgColor options of
             None \<Rightarrow> None
           | Some c \<Rightarrow> (if c = [] then None else Some (TextEntry c)))
     \<and> map_of (formData blob filename options) ''size'' =
          map_option (\<lambda>s. TextEntry (ImageSize_string s)) (size' options)
     \<and> map_of (formData blob filename options) ''crop'' =
          map_option (\<lambda>c. TextEntry (if c then ''true'' else ''false'')) (crop options)
     \<and> map fst (formData blob filename options) =
          ''image_file'' #
          (if format options = None then [] else [''format'']) @
          (if channels options = None then [] else [''channels'']) @
          (if bgColor options = None \<or> bgColor options = Some [] then [] else [''bg_color'']) @
          (if size' options = None then [] else [''size'']) @
          (if crop options = None then [] else [''crop''])"
  using removeBackground_sent_forms [OF assms] formData_fields [of blob filename options]
    formData_keys [of blob filename options]
  by simp

lemma toBlob_png_header:
  "toBlob h (Uint8ArrayInput png_header) =
     Inr \<lparr>blob_bytes = png_header, blob_type = ''image/png'', blob_name = None\<rparr>"
proof -
  have "detectMimeType png_header = ''image/png''"
    by (simp add: detectMimeType_def png_header_def at_def)
  then show ?thesis
    using new_Blob_detectMimeType [of png_header] by simp
qed

lemma getFilename_png_header:
  "getFilename h (Uint8ArrayInput png_header) ''image/png'' = ''image.png''"
  by (simp add: getFilename_def getExtension_def property_def or_else_def string_ToString_def)

theorem removeBackground_form_witness:
  "toBlob (example_host True True Pending) (Uint8ArrayInput png_header) =
     Inr \<lparr>blob_bytes = png_header, blob_type = ''image/png'', blob_name = None\<rparr>
   \<and> map body (fst (removeBackground (example_host True True Pending) example_client
        (Uint8ArrayInput png_header) (no_options\<lparr>format := Some Webp, crop := Some True\<rparr>))) =
     [Some [(''image_file'',
             FileEntry \<lparr>blob_bytes = png_header, blob_type = ''image/png'', blob_name = None\<rparr>
               ''image.png''),
            (''format'', TextEntry ''webp''), (''crop'', TextEntry ''true'')]]
   \<and> map body (fst (removeBackground (example_host True True Pending) example_client
        (Uint8ArrayInput png_header) no_options)) =
     [Some [(''image_file'',
             FileEntry \<lparr>blob_bytes = png_header, blob_type = ''image/png'', blob_name = None\<rparr>
               ''image.png'')]]
   \<and> map body (fst (removeBackground (example_host True True Pending) refused_client
        (Uint8ArrayInput png_header) no_options)) = []"
  using removeBackground_form [OF toBlob_png_header,
      of "example_host True True Pending" example_client
         "no_options\<lparr>format := Some Webp, crop := Some True\<rparr>"]
    removeBackground_form [OF toBlob_png_header,
      of "example_host True True Pending" example_client no_options]
    removeBackground_form [OF toBlob_png_header,
      of "example_host True True Pending" refused_client no_options]
    toBlob_png_header [of "example_host True True Pending"]
  by (simp add: getFilename_png_header formData_def formData_append_def no_options_def
      example_client_def refused_client_def Headers_set_secret Headers_set_line_feed)

text \<open>
  C8 as stated fails for a background colour given as the empty string: the test
  \<open>if (options.bgColor)\<close> is false for it, and the form has no \<open>bg_color\<close> field
  although the caller supplied one.
\<close>

theorem formData_empty_bgColor_omitted:
  "formData \<lparr>blob_bytes = png_header, blob_type = ''image/png'', blob_name = None\<rparr> ''image.png''
     (no_options\<lparr>bgColor := Some []\<rparr>) =
   [(''image_file'',
     FileEntry \<lparr>blob_bytes = png_header, blob_type = ''image/png'', blob_name = None\<rparr>
       ''image.png'')]"
  by (simp add: formData_def formData_append_def no_options_def)

section \<open>Error classification\<close>

lemma new_error_string:
  "new_error native cls (Value (JStr m)) c st rid det =
     Inr \<lparr>instanceof = cls, name = class_name cls, message = m, code = c, status = st,
          requestId = rid, details = det\<rparr>"
  by (simp add: new_error_def ToString_def)

lemma payload_members:
  "read_member (payload_json p) ''code'' = Value (JStr (ApiErrorResponse.code p))"
  "read_member (payload_json p) ''message'' = Value (JStr (ApiErrorResponse.message p))"
  "read_member (payload_json p) ''request_id'' = Value (JStr (request_id p))"
  "read_member (payload_json p) ''details'' =
     (case ApiErrorResponse.details p of None \<Rightarrow> Undefined | Some d \<Rightarrow> Value (JStr d))"
  by (simp_all add: read_member_def payload_json_def property_def object_prototype_def
      split: option.splits)

lemma property_ERROR_MAP:
  "object_prototype c = None \<Longrightarrow>
   property ERROR_MAP c =
     (if documented_kind c = PoofError then Undefined else Value (documented_kind c))"
  by (simp add: property_def ERROR_MAP_def documented_kind_def)

text \<open>
  What holds of the classifier: for a code that names no member of \<open>Object.prototype\<close>,
  the nine enumerated codes among them, the error has the documented class, the base
  class for a code outside the nine, and carries the payload and the status through.
\<close>

lemma fromResponse_documented:
  assumes "object_prototype (ApiErrorResponse.code p) = None"
  shows "fromResponse native (payload_json p) st =
     Inr (ErrorInstance (carried (documented_kind (ApiErrorResponse.code p)) p st))"
proof -
  have "payload_json p \<noteq> JNull"
    by (simp add: payload_json_def)
  then show ?thesis
    by (simp add: fromResponse_def payload_members ToString_def property_ERROR_MAP [OF assms]
        new_error_string carried_def)
qed

lemma enumerated_not_inherited:
  "c \<in> set (map fst ERROR_MAP) \<Longrightarrow> object_prototype c = None"
  by (auto simp: ERROR_MAP_def object_prototype_def)

lemma fromResponse_enumerated:
  "ApiErrorResponse.code p \<in> set (map fst ERROR_MAP) \<Longrightarrow>
   fromResponse native (payload_json p) st =
     Inr (ErrorInstance (carried (documented_kind (ApiErrorResponse.code p)) p st))"
  by (rule fromResponse_documented [OF enumerated_not_inherited])

lemma fromResponse_scenario3:
  "fromResponse native
     (payload_json \<lparr>ApiErrorResponse.code = ''payment_required'',
        ApiErrorResponse.message = ''Insufficient credits'', ApiErrorResponse.details = None,
        request_id = ''r1''\<rparr>) 402 =
   Inr (ErrorInstance
     \<lparr>instanceof = PaymentRequiredError, name = ''PaymentRequiredError'',
      message = ''Insufficient credits'', code = Value (JStr ''payment_required''),
      status = Some 402, requestId = Value (JStr ''r1''), details = Undefined\<rparr>)"
proof -
  have "object_prototype ''payment_required'' = None"
    by (simp add: object_prototype_def)
  then show ?thesis
    using fromResponse_documented [of "\<lparr>ApiErrorResponse.code = ''payment_required'',
        ApiErrorResponse.message = ''Insufficient credits'', ApiErrorResponse.details = None,
        request_id = ''r1''\<rparr>" native 402]
    by (simp add: carried_def documented_kind_def)
qed

text \<open>
  C2 fails on the code for a code that names a member of \<open>Object.prototype\<close>.
  \<open>ERROR_MAP\<close> is an object literal, so \<open>ERROR_MAP['constructor']\<close> is the inherited
  \<open>Object\<close> function, which is truthy: the fallback to the base class is not taken,
  and \<open>new Object(message, ...)\<close> returns the message as an object, not an error with a
  code, status, request id and details. With the code \<open>toString\<close> the inherited value
  is no constructor and \<open>new\<close> raises a \<open>TypeError\<close>.
\<close>

theorem fromResponse_inherited_code:
  "fromResponse native
     (payload_json \<lparr>ApiErrorResponse.code = ''constructor'', ApiErrorResponse.message = m,
        ApiErrorResponse.details = d, request_id = r\<rparr>) st =
     Inr (ObjectInstance (Value (JStr m)))
   \<and> fromResponse native
     (payload_json \<lparr>ApiErrorResponse.code = ''toString'', ApiErrorResponse.message = m,
        ApiErrorResponse.details = d, request_id = r\<rparr>) st =
     Inl TypeError"
proof -
  have "payload_json \<lparr>ApiErrorResponse.code = c, ApiErrorResponse.message = m,
      ApiErrorResponse.details = d, request_id = r\<rparr> \<noteq> JNull" for c
    by (simp add: payload_json_def)
  then show ?thesis
    by (simp add: fromResponse_def payload_members ToString_def property_def ERROR_MAP_def
        object_prototype_def)
qed

section \<open>Calls\<close>


lemma handleError_unparsed:
  "json_body r = Settles u (Inl e) \<Longrightarrow>
   handleError h r = Settles u (PoofThrown (unknown_error (response.status r) (statusText r)))"
  by (simp add: handleError_def new_error_string throw_new_def unknown_error_def)

lemma build_request_abort_after:
  "build_request this u m init b = Inr req \<Longrightarrow> abort_after req = Poof.timeout this"
  by (auto simp: build_request_def split: sum.splits)

lemma me_sent:
  "fst (me h this) =
     (case build_request this (Poof.baseUrl this @ ''/me'') ''GET''
             [(''Accept'', ''application/json'')] None of
        Inl refused \<Rightarrow> []
      | Inr req \<Rightarrow> [req])"
  by (simp add: me_def fetch_def split: sum.split promise.split)

lemma me_built:
  "fst (me h this) = [req] \<Longrightarrow>
   build_request this (Poof.baseUrl this @ ''/me'') ''GET'' [(''Accept'', ''application/json'')] None
     = Inr req"
  by (simp add: me_sent split: sum.splits)

lemma removeBackground_built:
  "fst (removeBackground h this input options) = [req] \<Longrightarrow>
   \<exists>blob. toBlob h input = Inr blob
     \<and> build_request this (Poof.baseUrl this @ ''/remove'') ''POST'' []
           (Some (formData blob (getFilename h input (blob_type blob)) options)) = Inr req"
proof (cases "toBlob h input")
  case (Inl t)
  assume "fst (removeBackground h this input options) = [req]"
  with Inl show ?thesis
    by (simp add: removeBackground_def)
next
  case (Inr blob)
  assume "fst (removeBackground h this input options) = [req]"
  with Inr show ?thesis
    by (simp add: removeBackground_sent split: sum.splits)
qed


lemma fetch_answered:
  assumes "build_request this u m init b = Inr req"
    and "native_fetch h req = Settles t (Inr r)"
    and "\<not> timer_first h (Poof.timeout this) t"
  shows "fetch h this u m init b = ([req], Settles t (Inr r))"
  using assms build_request_abort_after [OF assms(1)]
  by (simp add: fetch_def)



lemma me_answered:
  assumes "fst (me h this) = [req]" and "native_fetch h req = Settles t (Inr r)"
    and "\<not> timer_first h (Poof.timeout this) t"
  shows "snd (me h this) =
     delay_by t
       (if \<not> ok r then map_promise Inl (handleError h r)
        else case json_body r of
               Pending \<Rightarrow> Pending
             | Settles u (Inl e) \<Rightarrow> Settles u (Inl (HostThrown e))
             | Settles u (Inr v) \<Rightarrow> Settles u (Inr v))"
  by (simp add: me_def fetch_answered [OF me_built [OF assms(1)] assms(2,3)])

lemma removeBackground_not_ok:
  assumes "fst (removeBackground h this input options) = [req]"
    and "native_fetch h req = Settles t (Inr r)"
    and "\<not> timer_first h (Poof.timeout this) t"
    and "\<not> ok r"
  shows "snd (removeBackground h this input options) =
     delay_by t (map_promise Inl (handleError h r))"
proof -
  obtain blob where blob: "toBlob h input = Inr blob"
    and built: "build_request this (Poof.baseUrl this @ ''/remove'') ''POST'' []
      (Some (formData blob (getFilename h input (blob_type blob)) options)) = Inr req"
    using removeBackground_built [OF assms(1)] by blast
  show ?thesis
    by (simp add: removeBackground_def blob Let_def fetch_answered [OF built assms(2,3)] assms(4))
qed

lemma me_ok:
  assumes "fst (me h this) = [req]" and "native_fetch h req = Settles t (Inr r)"
    and "\<not> timer_first h (Poof.timeout this) t"
    and "ok r" and "json_body r = Settles u (Inr v)"
  shows "snd (me h this) = Settles (t + u) (Inr v)"
  by (simp add: me_answered [OF assms(1,2,3)] assms(4,5))

lemma example_request_me:
  "fst (me h example_client) =
     [\<lparr>url = ''https://api.poof.bg/v1/me'', http_method = ''GET'',
       headers = [(''accept'', ''application/json''), (''x-api-key'', ''secret'')],
       body = None, abort_after = 60000\<rparr>]"
  by (simp add: me_sent build_request_def example_client_def Headers_set_def ByteString_utf16_of
      header_value_def http_whitespace_def toLowerCase_def DEFAULT_BASE_URL_def
      DEFAULT_TIMEOUT_def)

lemma example_timer:
  "timer_first (example_host node file s) 60000 t = (60000 \<le> t)"
  by (auto simp: timer_first_def example_host_def example_setTimeout_delay_def)

lemma example_request_remove:
  "fst (removeBackground h example_client (Uint8ArrayInput png_header) no_options) =
     [\<lparr>url = ''https://api.poof.bg/v1/remove'', http_method = ''POST'',
       headers = [(''x-api-key'', ''secret'')],
       body = Some [(''image_file'',
         FileEntry \<lparr>blob_bytes = png_header, blob_type = ''image/png'', blob_name = None\<rparr>
           ''image.png'')],
       abort_after = 60000\<rparr>]"
  by (simp add: removeBackground_sent [OF toBlob_png_header] build_request_def example_client_def
      Headers_set_secret getFilename_png_header formData_def formData_append_def no_options_def
      DEFAULT_BASE_URL_def DEFAULT_TIMEOUT_def)







lemma decimal_500: "decimal 500 = ''500''"
  by (simp add: decimal_def digits.simps digit_char_def)

text \<open>
  C6, as the code has it. When the request a call sent is answered, before the timer
  is served, by a response that is not a success and \<open>response.json()\<close> fails on it,
  the body not being JSON, the call throws the generic error: base class, code
  \<open>unknown_error\<close>, message \<open>HTTP <status>: <status text>\<close>, the transport status, no
  request id and no details. A body that is JSON is not checked against the payload's
  shape: it goes to \<open>PoofError.fromResponse\<close> as it is.
\<close>

theorem unparsed_body_unknown_error:
  assumes "\<not> ok r" and "json_body r = Settles u (Inl e)"
  shows "(fst (me h this) = [req] \<longrightarrow> native_fetch h req = Settles t (Inr r) \<longrightarrow>
        \<not> timer_first h (Poof.timeout this) t \<longrightarrow>
        snd (me h this) =
          Settles (t + u) (Inl (PoofThrown (unknown_error (response.status r) (statusText r)))))
     \<and> (fst (removeBackground h this input options) = [req'] \<longrightarrow>
        native_fetch h req' = Settles t' (Inr r) \<longrightarrow>
        \<not> timer_first h (Poof.timeout this) t' \<longrightarrow>
        snd (removeBackground h this input options) =
          Settles (t' + u)
            (Inl (PoofThrown (unknown_error (response.status r) (statusText r)))))"
  using me_answered [of h this req t r]
    removeBackground_not_ok [of h this input options req' t' r]
    handleError_unparsed [OF assms(2), of h] assms(1)
  by simp

theorem unparsed_body_unknown_error_witness:
  "\<not> ok (example_response 500 ''Internal Server Error'' (Inl SyntaxError))
   \<and> json_body (example_response 500 ''Internal Server Error'' (Inl SyntaxError)) =
       Settles 0 (Inl SyntaxError)
   \<and> fst (me (example_host True True
          (Settles 120 (Inr (example_response 500 ''Internal Server Error'' (Inl SyntaxError)))))
        example_client) =
     [\<lparr>url = ''https://api.poof.bg/v1/me'', http_method = ''GET'',
       headers = [(''accept'', ''application/json''), (''x-api-key'', ''secret'')],
       body = None, abort_after = 60000\<rparr>]
   \<and> (\<forall>req. native_fetch
       (example_host True True
          (Settles 120 (Inr (example_response 500 ''Internal Server Error'' (Inl SyntaxError)))))
       req =
       Settles 120 (Inr (example_response 500 ''Internal Server Error'' (Inl SyntaxError))))
   \<and> \<not> timer_first
       (example_host True True
          (Settles 120 (Inr (example_response 500 ''Internal Server Error'' (Inl SyntaxError)))))
       (Poof.timeout example_client) 120
   \<and> snd (me (example_host True True
          (Settles 120 (Inr (example_response 500 ''Internal Server Error'' (Inl SyntaxError)))))
        example_client) =
       Settles 120 (Inl (PoofThrown
         \<lparr>instanceof = PoofError, name = ''PoofError'',
          message = ''HTTP 500: Internal Server Error'', code = Value (JStr ''unknown_error''),
          status = Some 500, requestId = Undefined, details = Undefined\<rparr>))
   \<and> snd (removeBackground (example_host True True
          (Settles 120 (Inr (example_response 500 ''Internal Server Error'' (Inl SyntaxError)))))
        example_client (Uint8ArrayInput png_header) no_options) =
       Settles 120 (Inl (PoofThrown
         \<lparr>instanceof = PoofError, name = ''PoofError'',
          message = ''HTTP 500: Internal Server Error'', code = Value (JStr ''unknown_error''),
          status = Some 500, requestId = Undefined, details = Undefined\<rparr>))"
proof -
  let ?r = "example_response 500 ''Internal Server Error'' (Inl SyntaxError)"
  let ?h = "example_host True True (Settles 120 (Inr ?r))"
  let ?me = "\<lparr>url = ''https://api.poof.bg/v1/me'', http_method = ''GET'',
       headers = [(''accept'', ''application/json''), (''x-api-key'', ''secret'')],
       body = None, abort_after = 60000\<rparr>"
  let ?remove = "\<lparr>url = ''https://api.poof.bg/v1/remove'', http_method = ''POST'',
       headers = [(''x-api-key'', ''secret'')],
       body = Some [(''image_file'',
         FileEntry \<lparr>blob_bytes = png_header, blob_type = ''image/png'', blob_name = None\<rparr>
           ''image.png'')],
       abort_after = 60000\<rparr>"
  have a: "native_fetch ?h req = Settles 120 (Inr ?r)" for req
    by (simp add: example_host_def)
  have b: "\<not> ok ?r"
    by (simp add: ok_def example_response_def)
  have c: "json_body ?r = Settles 0 (Inl SyntaxError)"
    by (simp add: example_response_def)
  have d: "unknown_error (response.status ?r) (statusText ?r) =
      \<lparr>instanceof = PoofError, name = ''PoofError'',
       message = ''HTTP 500: Internal Server Error'', code = Value (JStr ''unknown_error''),
       status = Some 500, requestId = Undefined, details = Undefined\<rparr>"
    by (simp add: unknown_error_def example_response_def decimal_500)
  have e: "\<not> timer_first ?h (Poof.timeout example_client) 120"
    by (simp add: example_timer example_client_def DEFAULT_TIMEOUT_def)
  show ?thesis
    using a b c e example_request_me [of ?h] example_request_remove [of ?h]
      unparsed_body_unknown_error [OF b c, of ?h example_client ?me 120
        "Uint8ArrayInput png_header" no_options ?remove 120]
    by (simp add: d)
qed

text \<open>
  C6 as stated fails for a body that is JSON but not of the payload's shape. For the
  body \<open>{}\<close> with status 500 the error thrown has no code at all, not the code
  \<open>unknown_error\<close>, and an empty message.
\<close>

theorem handleError_json_wrong_shape:
  "handleError (example_host True True Pending)
     (example_response 500 ''Internal Server Error'' (Inr (JObj []))) =
   Settles 0 (PoofThrown
     \<lparr>instanceof = PoofError, name = ''PoofError'', message = [], code = Undefined,
      status = Some 500, requestId = Undefined, details = Undefined\<rparr>)"
  by (simp add: handleError_def example_response_def fromResponse_def read_member_def
      property_def object_prototype_def ToString_def ERROR_MAP_def new_error_def
      throw_created_def string_ToString_def or_else_def)

text \<open>
  C1, as the code has it. A successful \<open>me\<close> returns what \<open>response.json()\<close> gave,
  unchanged: every member of the value returned is the member of the body of the same
  name. No name is mapped to another; a body written with the names of \<open>AccountInfo\<close>
  is an \<open>AccountInfo\<close> as it stands, and its \<open>autoRechargeThreshold: null\<close> stays
  \<open>null\<close>. The call is successful when its request is answered before the timer is
  served, by a success response whose body parses.
\<close>

theorem me_returns_body:
  assumes "fst (me h this) = [req]" and "native_fetch h req = Settles t (Inr r)"
    and "\<not> timer_first h (Poof.timeout this) t"
    and "ok r" and "json_body r = Settles u (Inr v)"
  shows "snd (me h this) = Settles (t + u) (Inr v)
     \<and> map_promise (map_sum id (\<lambda>account. read_member account k)) (snd (me h this)) =
         Settles (t + u) (Inr (read_member v k))"
  using me_ok [OF assms] by simp

theorem me_returns_body_witness:
  "fst (me (example_host True True (Settles 120 (Inr (example_response 200 ''OK'' (Inr account_body)))))
        example_client) =
     [\<lparr>url = ''https://api.poof.bg/v1/me'', http_method = ''GET'',
       headers = [(''accept'', ''application/json''), (''x-api-key'', ''secret'')],
       body = None, abort_after = 60000\<rparr>]
   \<and> (\<forall>req. native_fetch
       (example_host True True (Settles 120 (Inr (example_response 200 ''OK'' (Inr account_body)))))
       req =
       Settles 120 (Inr (example_response 200 ''OK'' (Inr account_body))))
   \<and> \<not> timer_first
       (example_host True True (Settles 120 (Inr (example_response 200 ''OK'' (Inr account_body)))))
       (Poof.timeout example_client) 120
   \<and> ok (example_response 200 ''OK'' (Inr account_body))
   \<and> json_body (example_response 200 ''OK'' (Inr account_body)) = Settles 0 (Inr account_body)
   \<and> snd (me (example_host True True
          (Settles 120 (Inr (example_response 200 ''OK'' (Inr account_body)))))
        example_client) = Settles 120 (Inr account_body)
   \<and> map_promise (map_sum id (\<lambda>account. read_member account ''autoRechargeThreshold''))
        (snd (me (example_host True True
           (Settles 120 (Inr (example_response 200 ''OK'' (Inr account_body))))) example_client)) =
       Settles 120 (Inr (Value JNull))"
proof -
  let ?r = "example_response 200 ''OK'' (Inr account_body)"
  let ?h = "example_host True True (Settles 120 (Inr ?r))"
  have a: "native_fetch ?h req = Settles 120 (Inr ?r)" for req
    by (simp add: example_host_def)
  have b: "ok ?r"
    by (simp add: ok_def example_response_def)
  have c: "json_body ?r = Settles 0 (Inr account_body)"
    by (simp add: example_response_def)
  have d: "read_member account_body ''autoRechargeThreshold'' = Value JNull"
    by (simp add: read_member_def account_body_def property_def)
  have e: "\<not> timer_first ?h (Poof.timeout example_client) 120"
    by (simp add: example_timer example_client_def DEFAULT_TIMEOUT_def)
  show ?thesis
    using a b c d e example_request_me [of ?h]
      me_returns_body [OF example_request_me a e b c, of "''autoRechargeThreshold''"]
    by simp
qed

text \<open>
  C1 as stated fails: for the success body \<open>{organization_id: 'o1', plan: 'pro',
  max_credits: 1000, used_credits: 200, auto_recharge_threshold: null}\<close> the value
  returned has the members of the body under the body's names, so that
  \<open>organizationId\<close>, \<open>maxCredits\<close>, \<open>usedCredits\<close> and \<open>autoRechargeThreshold\<close> read as
  \<open>undefined\<close>; only \<open>plan\<close>, whose name is the same on both sides, is there.
\<close>

theorem me_returns_body_unrenamed:
  "snd (me (example_host True True (Settles 120 (Inr (example_response 200 ''OK'' (Inr scenario5)))))
        example_client) = Settles 120 (Inr scenario5)
   \<and> read_member scenario5 ''organizationId'' = Undefined
   \<and> read_member scenario5 ''maxCredits'' = Undefined
   \<and> read_member scenario5 ''usedCredits'' = Undefined
   \<and> read_member scenario5 ''autoRechargeThreshold'' = Undefined
   \<and> read_member scenario5 ''plan'' = Value (JStr ''pro'')
   \<and> read_member scenario5 ''auto_recharge_threshold'' = Value JNull"
proof -
  let ?r = "example_response 200 ''OK'' (Inr scenario5)"
  let ?h = "example_host True True (Settles 120 (Inr ?r))"
  have "native_fetch ?h req = Settles 120 (Inr ?r)" for req
    by (simp add: example_host_def)
  moreover have "\<not> timer_first ?h (Poof.timeout example_client) 120"
    by (simp add: example_timer example_client_def DEFAULT_TIMEOUT_def)
  moreover have "ok ?r"
    by (simp add: ok_def example_response_def)
  moreover have "json_body ?r = Settles 0 (Inr scenario5)"
    by (simp add: example_response_def)
  ultimately have "snd (me ?h example_client) = Settles 120 (Inr scenario5)"
    using me_ok [OF example_request_me, of ?h 120 ?r 0 scenario5] by simp
  then show ?thesis
    by (simp add: read_member_def scenario5_def property_def object_prototype_def)
qed

end
